theory Spec2Isabelle
  imports Complex_Main "HOL-Library.Word"
begin

section \<open>JavaScript values and calls\<close>

text \<open>
  A JavaScript string is a sequence of UTF-16 code units; \<open>length\<close> counts code units.
  The containers store any value (\<open>@param {*}\<close>); the values that the code tells apart are
  \<open>undefined\<close>, \<open>null\<close> and the empty string. The numbers among the stored values are
  restricted to integers; the containers never inspect them.
\<close>

type_synonym jsstring = "16 word list"

datatype jsval = Undefined | Null | Bool bool | Num int | Str jsstring

text \<open>
  Every \<open>throw new Error(msg)\<close> of the source is one constructor:
  \<^item> \<open>StackOverflow\<close>: \<open>'Stack overflow: Maximum size reached'\<close> (Stack.push)
  \<^item> \<open>InvalidElement\<close>: \<open>'Invalid element: Cannot push empty value'\<close> (Stack.push)
  \<^item> \<open>StackUnderflow\<close>: \<open>'Stack underflow: Cannot pop from empty stack'\<close> (Stack.pop)
  \<^item> \<open>InvalidSize\<close>: \<open>'Invalid size: Maximum size must be at least 1'\<close> (Stack.setMaxSize)
  \<^item> \<open>QueueOverflow m\<close>: \<open>`Queue overflow! Maximum size is ${this.maxSize}`\<close> (Queue.enqueue)
  \<^item> \<open>TypeError\<close>: the engine's error for calling a member that is not a function.
\<close>

datatype error =
    StackOverflow
  | InvalidElement
  | StackUnderflow
  | InvalidSize
  | QueueOverflow int
  | TypeError

text \<open>
  A call of a member function either throws (\<open>Inl\<close>) or returns a value (\<open>Inr\<close>),
  and leaves the object in a new state. A function without \<open>return\<close> returns
  \<open>undefined\<close>.
\<close>

type_synonym 'st operation = "'st \<Rightarrow> (error + jsval) \<times> 'st"

text \<open>
  The capacity of a Stack is a JavaScript number (\<open>@param {number} size\<close>): \<open>NaN\<close>, an
  infinity or a finite value. Every finite double is a rational, and the code only compares,
  negates and truncates the capacity, which is exact. The comparisons are the language's:
  each of them is false when an operand is \<open>NaN\<close>.
\<close>

datatype number = NaN | NegInfinity | Finite rat | Infinity

fun js_lt :: "number \<Rightarrow> number \<Rightarrow> bool" where
  "js_lt (Finite a) (Finite b) = (a < b)"
| "js_lt (Finite a) Infinity = True"
| "js_lt NegInfinity (Finite b) = True"
| "js_lt NegInfinity Infinity = True"
| "js_lt a b = False"

definition js_gt :: "number \<Rightarrow> number \<Rightarrow> bool" where
  "js_gt a b = js_lt b a"

definition js_le :: "number \<Rightarrow> number \<Rightarrow> bool" where
  "js_le a b = (a \<noteq> NaN \<and> b \<noteq> NaN \<and> \<not> js_lt b a)"

definition js_ge :: "number \<Rightarrow> number \<Rightarrow> bool" where
  "js_ge a b = (a \<noteq> NaN \<and> b \<noteq> NaN \<and> \<not> js_lt a b)"

text \<open>Unary minus.\<close>

fun js_neg :: "number \<Rightarrow> number" where
  "js_neg NaN = NaN"
| "js_neg NegInfinity = Infinity"
| "js_neg (Finite a) = Finite (- a)"
| "js_neg Infinity = NegInfinity"

text \<open>\<open>array.length\<close>, as a number.\<close>

definition len :: "'a list \<Rightarrow> number" where
  "len xs = Finite (of_nat (length xs))"

text \<open>Truncation towards zero, the finite case of \<open>ToIntegerOrInfinity\<close>.\<close>

definition trunc :: "rat \<Rightarrow> int" where
  "trunc a = (if a < 0 then - \<lfloor>- a\<rfloor> else \<lfloor>a\<rfloor>)"

text \<open>
  \<open>Array.prototype.slice(start)\<close>: \<open>start\<close> is made an integer or an infinity (\<open>NaN\<close>
  becomes 0); a negative \<open>start\<close> counts from the end and is clamped at 0, a positive one is
  clamped at the length.
\<close>

definition Array_slice :: "'a list \<Rightarrow> number \<Rightarrow> 'a list" where
  "Array_slice xs start =
     (case start of
        NaN \<Rightarrow> xs
      | NegInfinity \<Rightarrow> xs
      | Infinity \<Rightarrow> []
      | Finite a \<Rightarrow>
          (let n = int (length xs);
               rel = trunc a;
               k = (if rel < 0 then max (n + rel) 0 else min rel n)
           in drop (nat k) xs))"

section \<open>class Stack\<close>

record Stack =
  items :: "jsval list"
  maxSize :: number

definition Stack_new :: Stack where
  "Stack_new = \<lparr>Stack.items = [], Stack.maxSize = Finite 10\<rparr>"

definition Stack_isEmpty :: "Stack \<Rightarrow> bool" where
  "Stack_isEmpty s = (length (Stack.items s) = 0)"

definition Stack_size :: "Stack \<Rightarrow> nat" where
  "Stack_size s = length (Stack.items s)"

definition Stack_push :: "jsval \<Rightarrow> Stack operation" where
  "Stack_push element s =
     (if js_ge (len (Stack.items s)) (Stack.maxSize s) then (Inl StackOverflow, s)
      else if element = Undefined \<or> element = Null \<or> element = Str [] then (Inl InvalidElement, s)
      else (Inr (Bool True), s\<lparr>Stack.items := Stack.items s @ [element]\<rparr>))"

definition Stack_pop :: "Stack operation" where
  "Stack_pop s =
     (if Stack_isEmpty s then (Inl StackUnderflow, s)
      else (Inr (last (Stack.items s)), s\<lparr>Stack.items := butlast (Stack.items s)\<rparr>))"

definition Stack_peek :: "Stack operation" where
  "Stack_peek s =
     (if Stack_isEmpty s then (Inr Null, s)
      else (Inr (Stack.items s ! (length (Stack.items s) - 1)), s))"

definition Stack_clear :: "Stack operation" where
  "Stack_clear s = (Inr Undefined, s\<lparr>Stack.items := []\<rparr>)"

definition Stack_setMaxSize :: "number \<Rightarrow> Stack operation" where
  "Stack_setMaxSize sz s =
     (if js_lt sz (Finite 1) then (Inl InvalidSize, s)
      else
        (let s1 = s\<lparr>Stack.maxSize := sz\<rparr>
         in if js_gt (len (Stack.items s1)) sz
            then (Inr Undefined, s1\<lparr>Stack.items := Array_slice (Stack.items s1) (js_neg sz)\<rparr>)
            else (Inr Undefined, s1)))"

definition Stack_isValid :: "Stack \<Rightarrow> bool" where
  "Stack_isValid s =
     (js_le (len (Stack.items s)) (Stack.maxSize s) \<and> js_gt (Stack.maxSize s) (Finite 0))"

section \<open>class Queue\<close>

text \<open>
  The capacity of a Queue is the constructor's 50 and no function of the class assigns it;
  it is an integer in the model.
\<close>

record Queue =
  items :: "jsval list"
  maxSize :: int

definition Queue_new :: Queue where
  "Queue_new = \<lparr>Queue.items = [], Queue.maxSize = 50\<rparr>"

definition Queue_isEmpty :: "Queue \<Rightarrow> bool" where
  "Queue_isEmpty q = (length (Queue.items q) = 0)"

definition Queue_size :: "Queue \<Rightarrow> nat" where
  "Queue_size q = length (Queue.items q)"

definition Queue_enqueue :: "jsval \<Rightarrow> Queue operation" where
  "Queue_enqueue item q =
     (if int (Queue_size q) \<ge> Queue.maxSize q then (Inl (QueueOverflow (Queue.maxSize q)), q)
      else (Inr (Bool True), q\<lparr>Queue.items := Queue.items q @ [item]\<rparr>))"

definition Queue_dequeue :: "Queue operation" where
  "Queue_dequeue q =
     (if Queue_isEmpty q then (Inr Null, q)
      else (Inr (hd (Queue.items q)), q\<lparr>Queue.items := tl (Queue.items q)\<rparr>))"

definition Queue_front :: "Queue operation" where
  "Queue_front q =
     (if Queue_isEmpty q then (Inr Null, q)
      else (Inr (Queue.items q ! 0), q))"

definition Queue_rear :: "Queue operation" where
  "Queue_rear q =
     (if Queue_isEmpty q then (Inr Null, q)
      else (Inr (Queue.items q ! (length (Queue.items q) - 1)), q))"

definition Queue_clear :: "Queue operation" where
  "Queue_clear q = (Inr Undefined, q\<lparr>Queue.items := []\<rparr>)"

section \<open>Sequences of calls\<close>

text \<open>
  \<open>run\<close> makes the calls one after the other on the same object; the caller catches what a
  call throws, so the outcome of every call is recorded and the next call is made.
\<close>

fun run :: "'st operation list \<Rightarrow> 'st \<Rightarrow> (error + jsval) list \<times> 'st" where
  "run [] s = ([], s)"
| "run (c # cs) s =
     (case c s of (r, s1) \<Rightarrow> (case run cs s1 of (rs, s2) \<Rightarrow> (r # rs, s2)))"

text \<open>
  The commands of the two containers, and the call each one makes.
\<close>

datatype stack_command = Push jsval | Pop | Peek | Clear | SetMaxSize number

datatype queue_command = Enqueue jsval | Dequeue | Front | Rear | ClearQueue

fun Stack_call :: "stack_command \<Rightarrow> Stack operation" where
  "Stack_call (Push v) = Stack_push v"
| "Stack_call Pop = Stack_pop"
| "Stack_call Peek = Stack_peek"
| "Stack_call Clear = Stack_clear"
| "Stack_call (SetMaxSize n) = Stack_setMaxSize n"

fun Queue_call :: "queue_command \<Rightarrow> Queue operation" where
  "Queue_call (Enqueue v) = Queue_enqueue v"
| "Queue_call Dequeue = Queue_dequeue"
| "Queue_call Front = Queue_front"
| "Queue_call Rear = Queue_rear"
| "Queue_call ClearQueue = Queue_clear"

text \<open>The values that \<open>Stack.push\<close> stores: all but \<open>undefined\<close>, \<open>null\<close> and \<open>''\<close>.\<close>

definition storable :: "jsval \<Rightarrow> bool" where
  "storable v = (\<not> (v = Undefined \<or> v = Null \<or> v = Str []))"

text \<open>The invariant of the data model: the occupancy lies between 0 and the capacity.\<close>

definition Stack_within_capacity :: "Stack \<Rightarrow> bool" where
  "Stack_within_capacity s =
     (js_le (Finite 0) (len (Stack.items s)) \<and> js_le (len (Stack.items s)) (Stack.maxSize s))"

text \<open>
  \<open>Number.isInteger\<close>, and the commands that ask for no capacity other than an integer.
\<close>

fun isInteger :: "number \<Rightarrow> bool" where
  "isInteger (Finite a) = (a = of_int \<lfloor>a\<rfloor>)"
| "isInteger n = False"

fun integer_capacity :: "stack_command \<Rightarrow> bool" where
  "integer_capacity (SetMaxSize n) = isInteger n"
| "integer_capacity c = True"

definition Queue_within_capacity :: "Queue \<Rightarrow> bool" where
  "Queue_within_capacity q =
     (0 \<le> int (length (Queue.items q)) \<and> int (length (Queue.items q)) \<le> Queue.maxSize q)"

section \<open>Strings\<close>

text \<open>A string literal of the source that has ASCII characters only.\<close>

definition ascii :: "string \<Rightarrow> jsstring" where
  "ascii cs = map (\<lambda>c. of_nat (of_char c)) cs"

text \<open>
  \<open>String.prototype.trim\<close> removes white space and line terminators from both ends:
  TAB, LF, VT, FF, CR, SP, NBSP, U+1680, U+2000 to U+200A, LS, PS, U+202F, U+205F, U+3000
  and the byte order mark.
\<close>

definition isWhiteSpace :: "16 word \<Rightarrow> bool" where
  "isWhiteSpace c =
     (c \<in> {0x9, 0xA, 0xB, 0xC, 0xD, 0x20, 0xA0, 0x1680, 0x2028, 0x2029, 0x202F, 0x205F,
            0x3000, 0xFEFF}
      \<or> (0x2000 \<le> c \<and> c \<le> 0x200A))"

definition trim :: "jsstring \<Rightarrow> jsstring" where
  "trim s = rev (dropWhile isWhiteSpace (rev (dropWhile isWhiteSpace s)))"

text \<open>\<open>toUpperCase\<close>, on the ASCII letters (the notification types are ASCII words).\<close>

definition toUpperCase :: "jsstring \<Rightarrow> jsstring" where
  "toUpperCase s = map (\<lambda>c. if 0x61 \<le> c \<and> c \<le> 0x7A then c - 0x20 else c) s"

text \<open>An integer in a template literal: its decimal digits (below \<open>10^21\<close> in size).\<close>

fun digits :: "nat \<Rightarrow> jsstring" where
  "digits n =
     (if n < 10 then [0x30 + of_nat n] else digits (n div 10) @ [0x30 + of_nat (n mod 10)])"

declare digits.simps [simp del]

definition decimal :: "int \<Rightarrow> jsstring" where
  "decimal m = (if m < 0 then 0x2D # digits (nat (- m)) else digits (nat m))"

text \<open>
  \<open>error.message\<close>. The text of the engine's TypeError is the one V8 and SpiderMonkey give
  for the only call of the model that can raise it.
\<close>

fun error_message :: "error \<Rightarrow> jsstring" where
  "error_message StackOverflow = ascii ''Stack overflow: Maximum size reached''"
| "error_message InvalidElement = ascii ''Invalid element: Cannot push empty value''"
| "error_message StackUnderflow = ascii ''Stack underflow: Cannot pop from empty stack''"
| "error_message InvalidSize = ascii ''Invalid size: Maximum size must be at least 1''"
| "error_message (QueueOverflow m) = ascii ''Queue overflow! Maximum size is '' @ decimal m"
| "error_message TypeError = ascii ''window.notifications.validationError is not a function''"

section \<open>The notification object\<close>

text \<open>
  The global \<open>notifications\<close> (also \<open>window.notifications\<close>) is either undefined (\<open>None\<close>:
  utils/notifications.js is not loaded) or an object, given by the names of its members that
  are functions; a member of a member is written with a dot. utils/notifications.js creates
  it as \<open>new NotificationSystem()\<close>, whose function members are the functions declared in the class.
\<close>

type_synonym api = "string list"

definition NotificationSystem :: api where
  "NotificationSystem =
     [''init'', ''createContainer'', ''injectStyles'', ''show'', ''createToast'', ''remove'',
      ''clear'', ''success'', ''error'', ''warning'', ''info'', ''getDefaultTitle'', ''getIcon'',
      ''escapeHtml'', ''update'', ''getActiveToasts'', ''setMaxToasts'', ''setDefaultDuration'']"

text \<open>
  What a controller does to the outside: a call of a member of \<open>notifications\<close>, a line on
  the console, or a toast of its own (\<open>QueueDemo.createToast(message, type)\<close>). The rendering
  of the container (\<open>updateDisplay\<close>, the item elements, button states, focus) is a function
  of the container and is not part of the model.
\<close>

datatype effect =
    Sink string "jsval list"
  | Console string "jsval list"
  | Toast jsstring jsstring

section \<open>class StackDemo\<close>

record StackDemo =
  stack :: Stack
  input :: jsstring
  effects :: "effect list"

definition StackDemo_new :: StackDemo where
  "StackDemo_new = \<lparr>stack = Stack_new, input = [], StackDemo.effects = []\<rparr>"

definition StackDemo_emit :: "effect \<Rightarrow> StackDemo operation" where
  "StackDemo_emit e d = (Inr Undefined, d\<lparr>StackDemo.effects := StackDemo.effects d @ [e]\<rparr>)"

text \<open>\<open>obj.member?.(args)\<close>: the call is made when the member exists.\<close>

definition StackDemo_optional :: "api \<Rightarrow> string \<Rightarrow> jsval list \<Rightarrow> StackDemo operation" where
  "StackDemo_optional obj member args d =
     (if member \<in> set obj then StackDemo_emit (Sink member args) d else (Inr Undefined, d))"

definition StackDemo_notify ::
  "api option \<Rightarrow> string \<Rightarrow> jsval \<Rightarrow> jsval \<Rightarrow> StackDemo operation" where
  "StackDemo_notify notifications type message val d =
     (case notifications of
        None \<Rightarrow>
          StackDemo_emit
            (Console ''warn'' [Str (ascii ''Notifications not loaded yet:''), Str (ascii type),
                               message, val]) d
      | Some obj \<Rightarrow>
          if type = ''validation'' then
            (if ''validationError'' \<in> set obj
             then StackDemo_emit (Sink ''validationError'' [Str (ascii ''Input''), message]) d
             else (Inl TypeError, d))
          else if type = ''stack.pushed'' then StackDemo_optional obj ''stack.pushed'' [val] d
          else if type = ''stack.popped'' then StackDemo_optional obj ''stack.popped'' [val] d
          else if type = ''stack.peeked'' then StackDemo_optional obj ''stack.peeked'' [val] d
          else if type = ''stack.overflow'' then StackDemo_optional obj ''stack.overflow'' [] d
          else if type = ''stack.empty'' then StackDemo_optional obj ''stack.empty'' [] d
          else if type = ''stack.cleared'' then StackDemo_optional obj ''stack.cleared'' [] d
          else if type = ''info'' then StackDemo_optional obj ''info'' [message] d
          else
            StackDemo_emit
              (Console ''log'' [Str (ascii ''Notification:''), Str (ascii type), message, val]) d)"

definition StackDemo_push :: "api option \<Rightarrow> StackDemo operation" where
  "StackDemo_push notifications d =
     (let val = trim (input d) in
      if val = [] then
        StackDemo_notify notifications ''validation'' (Str (ascii ''Please enter a value'')) Null d
      else if length val > 15 then
        StackDemo_notify notifications ''validation''
          (Str (ascii ''Value too long (max 15 characters)'')) Null d
      else
        (case Stack_push (Str val) (stack d) of
           (Inr r, s1) \<Rightarrow>
             (case StackDemo_notify notifications ''stack.pushed'' Null (Str val)
                     (d\<lparr>stack := s1, input := []\<rparr>) of
                (Inr r1, d1) \<Rightarrow> (Inr Undefined, d1)
              | (Inl error, d1) \<Rightarrow>
                  StackDemo_notify notifications ''stack.overflow'' Undefined Null d1)
         | (Inl error, s1) \<Rightarrow>
             StackDemo_notify notifications ''stack.overflow'' Undefined Null (d\<lparr>stack := s1\<rparr>)))"

section \<open>class QueueDemo\<close>

text \<open>
  \<open>inputField\<close> is the text of the input element, \<open>None\<close> when the page has no such
  element. The callbacks are the constructor's, which do nothing.
\<close>

record QueueDemo =
  queue :: Queue
  inputField :: "jsstring option"
  effects :: "effect list"

definition QueueDemo_new :: QueueDemo where
  "QueueDemo_new = \<lparr>queue = Queue_new, inputField = Some [], QueueDemo.effects = []\<rparr>"

definition QueueDemo_showNotification ::
  "api option \<Rightarrow> jsstring \<Rightarrow> string \<Rightarrow> QueueDemo operation" where
  "QueueDemo_showNotification notifications message type d =
     (if (case notifications of None \<Rightarrow> False | Some obj \<Rightarrow> type \<in> set obj)
      then (Inr Undefined,
            d\<lparr>QueueDemo.effects := QueueDemo.effects d @ [Sink type [Str message]]\<rparr>)
      else (Inr Undefined,
            d\<lparr>QueueDemo.effects := QueueDemo.effects d @
               [Console ''log''
                  [Str (ascii ''['' @ toUpperCase (ascii type) @ ascii ''] '' @ message)],
                Toast message (ascii type)]\<rparr>))"

text \<open>The two messages of the model that are not ASCII, by their code units.\<close>

definition msg_enter_value :: jsstring where
  "msg_enter_value =
     ascii ''Vui l'' @ [0xF2] @ ascii ''ng nh'' @ [0x1EAD] @ ascii ''p gi'' @ [0xE1]
     @ ascii '' tr'' @ [0x1ECB] @ ascii ''!''"

definition msg_added :: jsstring where
  "msg_added = [0x110, 0xE3] @ ascii '' th'' @ [0xEA] @ ascii ''m: ''"

definition QueueDemo_enqueue :: "api option \<Rightarrow> jsstring \<Rightarrow> QueueDemo operation" where
  "QueueDemo_enqueue notifications val d =
     (case Queue_enqueue (Str val) (queue d) of
        (Inr r, q1) \<Rightarrow>
          (case QueueDemo_showNotification notifications (msg_added @ val) ''success''
                  (d\<lparr>queue := q1\<rparr>) of
             (Inr r1, d1) \<Rightarrow> (Inr Undefined, d1)
           | (Inl error, d1) \<Rightarrow>
               QueueDemo_showNotification notifications (error_message error) ''error'' d1)
      | (Inl error, q1) \<Rightarrow>
          QueueDemo_showNotification notifications (error_message error) ''error''
            (d\<lparr>queue := q1\<rparr>))"

text \<open>The click handler of the Enqueue button (the Enter key clicks the button).\<close>

definition QueueDemo_enqueueBtn_click :: "api option \<Rightarrow> QueueDemo operation" where
  "QueueDemo_enqueueBtn_click notifications d =
     (case map_option trim (inputField d) of
        Some val \<Rightarrow>
          if val \<noteq> [] then
            (case QueueDemo_enqueue notifications val d of
               (Inr r, d1) \<Rightarrow> (Inr Undefined, d1\<lparr>inputField := Some []\<rparr>)
             | (Inl error, d1) \<Rightarrow> (Inl error, d1))
          else QueueDemo_showNotification notifications msg_enter_value ''warning'' d
      | None \<Rightarrow> QueueDemo_showNotification notifications msg_enter_value ''warning'' d)"

section \<open>Properties of the containers\<close>

subsection \<open>Auxiliary facts\<close>

lemma run_append:
  "run (cs @ ds) s =
     (case run cs s of (rs, s1) \<Rightarrow> (case run ds s1 of (ts, s2) \<Rightarrow> (rs @ ts, s2)))"
  by (induction cs arbitrary: s) (auto split: prod.splits)

lemma snd_run_Cons: "snd (run (c # cs) s) = snd (run cs (snd (c s)))"
  by (simp split: prod.splits)

lemma js_le_Finite [simp]: "js_le (Finite a) (Finite b) = (a \<le> b)"
  by (auto simp: js_le_def)

lemma js_ge_Finite [simp]: "js_ge (Finite a) (Finite b) = (b \<le> a)"
  by (auto simp: js_ge_def)

lemma js_gt_Finite [simp]: "js_gt (Finite a) (Finite b) = (b < a)"
  by (simp add: js_gt_def)

lemma push_fits:
  "js_le (Finite (of_nat (a + Suc b))) m \<Longrightarrow>
   \<not> js_ge (Finite (of_nat a)) m \<and> js_le (Finite (of_nat (Suc a + b))) m
   \<and> js_le (Finite (of_nat (a + b))) m"
  by (cases m) (auto simp: js_le_def js_ge_def)

lemma slice_negative:
  "1 \<le> a \<Longrightarrow> a < of_nat (length xs) \<Longrightarrow>
   Array_slice xs (Finite (- a)) = drop (length xs - nat \<lfloor>a\<rfloor>) xs"
proof -
  assume a: "1 \<le> a" "a < of_nat (length xs)"
  then have f: "1 \<le> \<lfloor>a\<rfloor>" "\<lfloor>a\<rfloor> < int (length xs)"
    by (simp_all add: le_floor_iff floor_less_iff)
  then have "nat (int (length xs) - \<lfloor>a\<rfloor>) = length xs - nat \<lfloor>a\<rfloor>" by linarith
  with a f show ?thesis by (simp add: Array_slice_def trunc_def Let_def max_def)
qed

lemma Stack_peek_last:
  "Stack_peek s = (Inr (if Stack.items s = [] then Null else last (Stack.items s)), s)"
  by (simp add: Stack_peek_def Stack_isEmpty_def last_conv_nth)

lemma run_push:
  "js_le (Finite (of_nat (length (Stack.items s) + length vs))) (Stack.maxSize s) \<Longrightarrow>
   run (map Stack_push vs) s =
     (map (\<lambda>v. if storable v then Inr (Bool True) else Inl InvalidElement) vs,
      s\<lparr>Stack.items := Stack.items s @ filter storable vs\<rparr>)"
proof (induction vs arbitrary: s)
  case Nil
  then show ?case by simp
next
  case (Cons v vs)
  from Cons.prems
  have fits: "\<not> js_ge (len (Stack.items s)) (Stack.maxSize s)"
    "js_le (Finite (of_nat (Suc (length (Stack.items s)) + length vs))) (Stack.maxSize s)"
    "js_le (Finite (of_nat (length (Stack.items s) + length vs))) (Stack.maxSize s)"
    using push_fits [of "length (Stack.items s)" "length vs" "Stack.maxSize s"]
    by (simp_all add: len_def)
  show ?case
  proof (cases "storable v")
    case False
    with fits have "Stack_push v s = (Inl InvalidElement, s)"
      by (auto simp: Stack_push_def storable_def)
    then show ?thesis using False fits Cons.IH [of s] by simp
  next
    case True
    let ?s1 = "s\<lparr>Stack.items := Stack.items s @ [v]\<rparr>"
    from True fits have "Stack_push v s = (Inr (Bool True), ?s1)"
      by (auto simp: Stack_push_def storable_def)
    moreover from fits
    have "js_le (Finite (of_nat (length (Stack.items ?s1) + length vs))) (Stack.maxSize ?s1)"
      by simp
    ultimately show ?thesis using True Cons.IH [of ?s1] by simp
  qed
qed

lemma run_pop:
  "run (replicate (length ys) Stack_pop) (s\<lparr>Stack.items := Stack.items s @ ys\<rparr>)
     = (map Inr (rev ys), s)"
proof (induction ys rule: rev_induct)
  case Nil
  then show ?case by simp
next
  case (snoc y ys)
  have "Stack_pop (s\<lparr>Stack.items := Stack.items s @ ys @ [y]\<rparr>)
      = (Inr y, s\<lparr>Stack.items := Stack.items s @ ys\<rparr>)"
    by (simp add: Stack_pop_def Stack_isEmpty_def butlast_append)
  then show ?case using snoc.IH by simp
qed

lemma run_enqueue:
  "int (length (Queue.items q)) + int (length vs) \<le> Queue.maxSize q \<Longrightarrow>
   run (map Queue_enqueue vs) q =
     (replicate (length vs) (Inr (Bool True)), q\<lparr>Queue.items := Queue.items q @ vs\<rparr>)"
proof (induction vs arbitrary: q)
  case Nil
  then show ?case by simp
next
  case (Cons v vs)
  let ?q1 = "q\<lparr>Queue.items := Queue.items q @ [v]\<rparr>"
  from Cons.prems have "Queue_enqueue v q = (Inr (Bool True), ?q1)"
    by (auto simp: Queue_enqueue_def Queue_size_def)
  moreover from Cons.prems
  have "int (length (Queue.items ?q1)) + int (length vs) \<le> Queue.maxSize ?q1"
    by simp
  ultimately show ?case using Cons.IH [of ?q1] by auto
qed

lemma run_dequeue:
  "run (replicate (length ys) Queue_dequeue) (q\<lparr>Queue.items := ys\<rparr>)
     = (map Inr ys, q\<lparr>Queue.items := []\<rparr>)"
proof (induction ys)
  case Nil
  then show ?case by simp
next
  case (Cons y ys)
  have "Queue_dequeue (q\<lparr>Queue.items := y # ys\<rparr>) = (Inr y, q\<lparr>Queue.items := ys\<rparr>)"
    by (simp add: Queue_dequeue_def Queue_isEmpty_def)
  then show ?case using Cons.IH by simp
qed

text \<open>
  Where every capacity is an integer, each command of the Stack keeps the occupancy within the
  capacity, and so does every sequence of such commands.
\<close>

lemma integer_next:
  "a = of_int \<lfloor>a\<rfloor> \<Longrightarrow> \<not> a \<le> of_nat n \<Longrightarrow> of_nat (Suc n) \<le> (a::rat)"
proof -
  assume "a = of_int \<lfloor>a\<rfloor>" and less: "\<not> a \<le> of_nat n"
  then obtain k :: int where k: "a = of_int k" by blast
  with less have "(of_int (int n) :: rat) < of_int k" by simp
  then have "int n < k" by (simp only: of_int_less_iff)
  then have "int (Suc n) \<le> k" by simp
  then have "(of_int (int (Suc n)) :: rat) \<le> of_int k" by (simp only: of_int_le_iff)
  with k show ?thesis by simp
qed

lemma Stack_call_within_integer_capacity:
  assumes "Stack_within_capacity s" and "isInteger (Stack.maxSize s)" and "integer_capacity c"
  shows "Stack_within_capacity (snd (Stack_call c s)) \<and> isInteger (Stack.maxSize (snd (Stack_call c s)))"
proof -
  from assms(2) obtain m where m: "Stack.maxSize s = Finite m" "m = of_int \<lfloor>m\<rfloor>"
    by (cases "Stack.maxSize s") auto
  with assms(1) have le: "of_nat (length (Stack.items s)) \<le> m"
    by (simp add: Stack_within_capacity_def len_def)
  show ?thesis
  proof (cases c)
    case (Push v)
    show ?thesis
      using m le integer_next [of m "length (Stack.items s)"]
      by (auto simp: Push Stack_push_def Stack_within_capacity_def len_def)
  next
    case Pop
    have "rat_of_nat (length (Stack.items s) - Suc 0) \<le> of_nat (length (Stack.items s))"
      by simp
    with le have "rat_of_nat (length (Stack.items s) - Suc 0) \<le> m" by linarith
    with m le show ?thesis
      by (auto simp: Pop Stack_pop_def Stack_within_capacity_def len_def)
  next
    case Peek
    with m le show ?thesis by (auto simp: Stack_peek_def Stack_within_capacity_def len_def)
  next
    case Clear
    with m le show ?thesis
      using of_nat_0_le_iff [of "length (Stack.items s)"]
      by (auto simp: Stack_clear_def Stack_within_capacity_def len_def)
  next
    case (SetMaxSize n)
    with assms(3) obtain a where a: "n = Finite a" "a = of_int \<lfloor>a\<rfloor>"
      by (cases n) auto
    show ?thesis
    proof (cases "1 \<le> a \<and> a < of_nat (length (Stack.items s))")
      case True
      then have "1 \<le> \<lfloor>a\<rfloor>" by (simp add: le_floor_iff)
      then have "of_nat (nat \<lfloor>a\<rfloor>) = (of_int \<lfloor>a\<rfloor> :: rat)" by simp
      with a have n: "rat_of_nat (nat \<lfloor>a\<rfloor>) = a" by simp
      from True have "\<lfloor>a\<rfloor> < int (length (Stack.items s))" by (simp add: floor_less_iff)
      then have "min (length (Stack.items s)) (nat \<lfloor>a\<rfloor>) = nat \<lfloor>a\<rfloor>" by linarith
      with True a n show ?thesis
        by (simp add: SetMaxSize Stack_setMaxSize_def Let_def slice_negative len_def
            Stack_within_capacity_def)
    next
      case False
      with a m le show ?thesis
        by (auto simp: SetMaxSize Stack_setMaxSize_def Let_def len_def Stack_within_capacity_def)
    qed
  qed
qed

lemma run_Stack_within_integer_capacity:
  "Stack_within_capacity s \<Longrightarrow> isInteger (Stack.maxSize s) \<Longrightarrow> list_all integer_capacity cs \<Longrightarrow>
   Stack_within_capacity (snd (run (map Stack_call cs) s))"
proof (induction cs arbitrary: s)
  case Nil
  then show ?case by simp
next
  case (Cons c cs)
  from Cons.prems have "Stack_within_capacity (snd (Stack_call c s))
      \<and> isInteger (Stack.maxSize (snd (Stack_call c s)))"
    by (simp add: Stack_call_within_integer_capacity)
  with Cons.prems have "Stack_within_capacity (snd (run (map Stack_call cs) (snd (Stack_call c s))))"
    by (simp add: Cons.IH)
  then show ?case by (simp only: list.map snd_run_Cons)
qed

text \<open>Every command of the Queue keeps the occupancy within the capacity.\<close>

lemma Queue_call_within_capacity:
  "Queue_within_capacity q \<Longrightarrow> Queue_within_capacity (snd (Queue_call c q))"
  by (cases c)
     (auto simp: Queue_within_capacity_def Queue_enqueue_def Queue_dequeue_def Queue_front_def
        Queue_rear_def Queue_clear_def Queue_size_def)

lemma run_Queue_within_capacity:
  "Queue_within_capacity q \<Longrightarrow> Queue_within_capacity (snd (run (map Queue_call cs) q))"
proof (induction cs arbitrary: q)
  case Nil
  then show ?case by simp
next
  case (Cons c cs)
  from Cons.prems have "Queue_within_capacity (snd (Queue_call c q))"
    by (rule Queue_call_within_capacity)
  then have "Queue_within_capacity (snd (run (map Queue_call cs) (snd (Queue_call c q))))"
    by (rule Cons.IH)
  then show ?case by (simp only: list.map snd_run_Cons)
qed

subsection \<open>Order of removal\<close>

text \<open>
  Claim C1 (LIFO law). Take any stack and any values whose number fits into the remaining
  capacity, and push them one after the other. No push overflows; a push of \<open>undefined\<close>,
  \<open>null\<close> or \<open>''\<close> throws and stores nothing, every other push returns \<open>true\<close>. As many
  \<open>pop()\<close> calls as values were stored then return exactly the stored values in the reverse
  order of their insertion, and leave the stack as it was before the pushes.
\<close>

theorem Stack_LIFO:
  assumes "js_le (Finite (of_nat (length (Stack.items s) + length vs))) (Stack.maxSize s)"
  shows "run (map Stack_push vs @ replicate (length (filter storable vs)) Stack_pop) s =
           (map (\<lambda>v. if storable v then Inr (Bool True) else Inl InvalidElement) vs
              @ map Inr (rev (filter storable vs)), s)"
  using run_pop [of "filter storable vs" s]
  by (simp add: run_append run_push [OF assms])

theorem Stack_LIFO_witness:
  "js_le (Finite (of_nat (length (Stack.items Stack_new)
            + length [Str (ascii ''A''), Str [], Str (ascii ''B''), Num 7])))
     (Stack.maxSize Stack_new)
   \<and> run [Stack_push (Str (ascii ''A'')), Stack_push (Str []), Stack_push (Str (ascii ''B'')),
          Stack_push (Num 7), Stack_pop, Stack_pop, Stack_pop] Stack_new =
       ([Inr (Bool True), Inl InvalidElement, Inr (Bool True), Inr (Bool True),
         Inr (Num 7), Inr (Str (ascii ''B'')), Inr (Str (ascii ''A''))], Stack_new)"
  using Stack_LIFO [of Stack_new "[Str (ascii ''A''), Str [], Str (ascii ''B''), Num 7]"]
  by (simp add: Stack_new_def storable_def ascii_def)

text \<open>
  Claim C2 (FIFO law). Take any queue and any values whose number fits into the remaining
  capacity, and enqueue them one after the other. Every \<open>enqueue\<close> returns \<open>true\<close>. As many
  \<open>dequeue()\<close> calls as the queue then holds return what was in the queue before, followed by
  the enqueued values, in exactly the order of insertion, and leave the queue empty.
\<close>

theorem Queue_FIFO:
  assumes "int (length (Queue.items q)) + int (length vs) \<le> Queue.maxSize q"
  shows "run (map Queue_enqueue vs
              @ replicate (length (Queue.items q) + length vs) Queue_dequeue) q =
           (replicate (length vs) (Inr (Bool True)) @ map Inr (Queue.items q @ vs),
            q\<lparr>Queue.items := []\<rparr>)"
  using run_dequeue [of "Queue.items q @ vs" q]
  by (simp add: run_append run_enqueue [OF assms])

theorem Queue_FIFO_witness:
  "int (length (Queue.items Queue_new))
     + int (length [Str (ascii ''X''), Null, Str (ascii ''Z'')])
     \<le> Queue.maxSize Queue_new
   \<and> run [Queue_enqueue (Str (ascii ''X'')), Queue_enqueue Null, Queue_enqueue (Str (ascii ''Z'')),
          Queue_dequeue, Queue_dequeue, Queue_dequeue] Queue_new =
       ([Inr (Bool True), Inr (Bool True), Inr (Bool True),
         Inr (Str (ascii ''X'')), Inr Null, Inr (Str (ascii ''Z''))], Queue_new)"
  using Queue_FIFO [of Queue_new "[Str (ascii ''X''), Null, Str (ascii ''Z'')]"]
  by (simp add: Queue_new_def ascii_def)

subsection \<open>Failures and their frames\<close>

text \<open>
  Claim C3. On an empty Stack \<open>pop()\<close> throws the underflow error and the stack is unchanged;
  on an empty Queue \<open>dequeue()\<close> throws nothing, returns \<open>null\<close>, and the queue is unchanged.
\<close>

theorem empty_removal:
  "(Stack_isEmpty s \<longrightarrow> Stack_pop s = (Inl StackUnderflow, s))
   \<and> (Queue_isEmpty q \<longrightarrow> Queue_dequeue q = (Inr Null, q))"
  by (simp add: Stack_pop_def Queue_dequeue_def)

theorem empty_removal_witness:
  "Stack_isEmpty Stack_new \<and> Stack_pop Stack_new = (Inl StackUnderflow, Stack_new)
   \<and> Queue_isEmpty Queue_new \<and> Queue_dequeue Queue_new = (Inr Null, Queue_new)"
  using empty_removal [of Stack_new Queue_new]
  by (simp add: Stack_isEmpty_def Stack_new_def Queue_isEmpty_def Queue_new_def)

text \<open>
  Claim C4. A push onto a Stack whose size equals its capacity throws the overflow error and
  leaves the stack (size and contents) as it was. On a Stack that satisfies the invariant of
  the class (\<open>isValid\<close>) and is not at capacity, a push of \<open>undefined\<close>, \<open>null\<close> or \<open>''\<close>
  throws the invalid-element error and leaves the stack as it was; a push of any other value
  returns \<open>true\<close> and appends the value, which is then the top: \<open>peek()\<close> and \<open>pop()\<close>
  return it.
\<close>

theorem push_contract:
  "(Finite (of_nat (Stack_size s)) = Stack.maxSize s \<longrightarrow>
        Stack_push v s = (Inl StackOverflow, s))
   \<and> (Stack_isValid s \<and> Finite (of_nat (Stack_size s)) \<noteq> Stack.maxSize s \<and> \<not> storable v \<longrightarrow>
        Stack_push v s = (Inl InvalidElement, s))
   \<and> (Stack_isValid s \<and> Finite (of_nat (Stack_size s)) \<noteq> Stack.maxSize s \<and> storable v \<longrightarrow>
        Stack_push v s = (Inr (Bool True), s\<lparr>Stack.items := Stack.items s @ [v]\<rparr>)
        \<and> fst (Stack_peek (snd (Stack_push v s))) = Inr v
        \<and> fst (Stack_pop (snd (Stack_push v s))) = Inr v)"
proof -
  have full: "js_ge (len (Stack.items s)) (Stack.maxSize s)"
    if "Finite (of_nat (Stack_size s)) = Stack.maxSize s"
    using that by (cases "Stack.maxSize s") (auto simp: len_def Stack_size_def)
  have room: "\<not> js_ge (len (Stack.items s)) (Stack.maxSize s)"
    if "Stack_isValid s" and "Finite (of_nat (Stack_size s)) \<noteq> Stack.maxSize s"
    using that
    by (cases "Stack.maxSize s")
       (auto simp: len_def Stack_size_def Stack_isValid_def js_le_def js_ge_def)
  show ?thesis
    using full room
    by (auto simp: Stack_push_def storable_def Stack_peek_def Stack_pop_def Stack_isEmpty_def)
qed

theorem push_contract_witness:
  "Finite (of_nat (Stack_size \<lparr>Stack.items = [Str (ascii ''A'')], Stack.maxSize = Finite 1\<rparr>))
     = Finite 1
   \<and> Stack_push (Str (ascii ''D''))
         \<lparr>Stack.items = [Str (ascii ''A'')], Stack.maxSize = Finite 1\<rparr>
       = (Inl StackOverflow, \<lparr>Stack.items = [Str (ascii ''A'')], Stack.maxSize = Finite 1\<rparr>)
   \<and> Stack_isValid Stack_new
   \<and> Finite (of_nat (Stack_size Stack_new)) \<noteq> Stack.maxSize Stack_new
   \<and> \<not> storable (Str []) \<and> storable (Str (ascii ''A''))
   \<and> Stack_push (Str []) Stack_new = (Inl InvalidElement, Stack_new)
   \<and> Stack_push (Str (ascii ''A'')) Stack_new
       = (Inr (Bool True), Stack_new\<lparr>Stack.items := [Str (ascii ''A'')]\<rparr>)"
  using push_contract
      [of "\<lparr>Stack.items = [Str (ascii ''A'')], Stack.maxSize = Finite 1\<rparr>" "Str (ascii ''D'')"]
    push_contract [of Stack_new "Str []"]
    push_contract [of Stack_new "Str (ascii ''A'')"]
  by (simp add: Stack_size_def Stack_isValid_def Stack_new_def storable_def ascii_def len_def
      js_gt_def)

subsection \<open>The capacity invariant\<close>

text \<open>
  Claim C5. The occupancy of a container is to lie between 0 and its capacity in every state
  that the commands reach. For the Stack it does not: \<open>setMaxSize\<close> only refuses a number
  below 1. On a new Stack \<open>setMaxSize(2.5)\<close> returns normally and three pushes then succeed
  (0, 1 and 2 are not at least 2.5), which leaves 3 elements in a stack of capacity 2.5, a
  state that \<open>isValid()\<close> itself rejects. \<open>setMaxSize(NaN)\<close> returns normally as well, and no
  occupancy is within the capacity \<open>NaN\<close>.
\<close>

theorem capacity_invariant_broken:
  "run (map Stack_call
          [SetMaxSize (Finite (5 / 2)), Push (Num 1), Push (Num 2), Push (Num 3)]) Stack_new
     = ([Inr Undefined, Inr (Bool True), Inr (Bool True), Inr (Bool True)],
        \<lparr>Stack.items = [Num 1, Num 2, Num 3], Stack.maxSize = Finite (5 / 2)\<rparr>)
   \<and> \<not> Stack_within_capacity
         \<lparr>Stack.items = [Num 1, Num 2, Num 3], Stack.maxSize = Finite (5 / 2)\<rparr>
   \<and> \<not> Stack_isValid \<lparr>Stack.items = [Num 1, Num 2, Num 3], Stack.maxSize = Finite (5 / 2)\<rparr>
   \<and> Stack_setMaxSize NaN Stack_new = (Inr Undefined, Stack_new\<lparr>Stack.maxSize := NaN\<rparr>)
   \<and> \<not> Stack_within_capacity (Stack_new\<lparr>Stack.maxSize := NaN\<rparr>)"
  by (simp add: Stack_new_def Stack_setMaxSize_def Stack_push_def Stack_within_capacity_def
      Stack_isValid_def len_def js_le_def js_ge_def js_gt_def)

subsection \<open>Changing the capacity\<close>

text \<open>
  Claim C6. \<open>setMaxSize\<close> with a capacity below 1 throws the invalid-size error and changes
  nothing. With a capacity of at least 1 that is below the occupancy it returns normally,
  sets the capacity, and keeps exactly the last (most recently pushed) elements, as many as
  the capacity (its integer part, when the number has a fraction): the elements dropped are
  the oldest ones at the bottom, and \<open>peek()\<close> returns the same top as before.
\<close>

theorem setMaxSize_contract:
  "(js_lt sz (Finite 1) \<longrightarrow> Stack_setMaxSize sz s = (Inl InvalidSize, s))
   \<and> (1 \<le> a \<and> a < of_nat (Stack_size s) \<longrightarrow>
        Stack_setMaxSize (Finite a) s =
          (Inr Undefined,
           s\<lparr>Stack.maxSize := Finite a,
             Stack.items := drop (length (Stack.items s) - nat \<lfloor>a\<rfloor>) (Stack.items s)\<rparr>)
        \<and> length (Stack.items (snd (Stack_setMaxSize (Finite a) s))) = nat \<lfloor>a\<rfloor>
        \<and> Stack.items s =
            take (length (Stack.items s) - nat \<lfloor>a\<rfloor>) (Stack.items s)
              @ Stack.items (snd (Stack_setMaxSize (Finite a) s))
        \<and> fst (Stack_peek (snd (Stack_setMaxSize (Finite a) s))) = fst (Stack_peek s))"
proof (intro conjI impI)
  assume "js_lt sz (Finite 1)"
  then show "Stack_setMaxSize sz s = (Inl InvalidSize, s)"
    by (simp add: Stack_setMaxSize_def)
next
  assume "1 \<le> a \<and> a < of_nat (Stack_size s)"
  then have b: "1 \<le> a" "a < of_nat (length (Stack.items s))"
    by (simp_all add: Stack_size_def)
  then have f: "1 \<le> \<lfloor>a\<rfloor>" "\<lfloor>a\<rfloor> < int (length (Stack.items s))"
    by (simp_all add: le_floor_iff floor_less_iff)
  then have c: "length (Stack.items s) - nat \<lfloor>a\<rfloor> < length (Stack.items s)"
    by linarith
  show d: "Stack_setMaxSize (Finite a) s =
          (Inr Undefined,
           s\<lparr>Stack.maxSize := Finite a,
             Stack.items := drop (length (Stack.items s) - nat \<lfloor>a\<rfloor>) (Stack.items s)\<rparr>)"
    using b by (simp add: Stack_setMaxSize_def Let_def slice_negative len_def)
  show "length (Stack.items (snd (Stack_setMaxSize (Finite a) s))) = nat \<lfloor>a\<rfloor>"
    using f by (simp add: d)
  show "Stack.items s =
            take (length (Stack.items s) - nat \<lfloor>a\<rfloor>) (Stack.items s)
              @ Stack.items (snd (Stack_setMaxSize (Finite a) s))"
    by (simp add: d)
  show "fst (Stack_peek (snd (Stack_setMaxSize (Finite a) s))) = fst (Stack_peek s)"
    using f c by (auto simp: d Stack_peek_last)
qed

theorem setMaxSize_contract_witness:
  "js_lt (Finite 0) (Finite 1)
   \<and> Stack_setMaxSize (Finite 0)
         \<lparr>Stack.items = [Num 1, Num 2, Num 3], Stack.maxSize = Finite 3\<rparr>
       = (Inl InvalidSize, \<lparr>Stack.items = [Num 1, Num 2, Num 3], Stack.maxSize = Finite 3\<rparr>)
   \<and> (1::rat) \<le> 2
   \<and> 2 < rat_of_nat
         (Stack_size \<lparr>Stack.items = [Num 1, Num 2, Num 3], Stack.maxSize = Finite 3\<rparr>)
   \<and> Stack_setMaxSize (Finite 2)
         \<lparr>Stack.items = [Num 1, Num 2, Num 3], Stack.maxSize = Finite 3\<rparr>
       = (Inr Undefined, \<lparr>Stack.items = [Num 2, Num 3], Stack.maxSize = Finite 2\<rparr>)
   \<and> fst (Stack_peek \<lparr>Stack.items = [Num 2, Num 3], Stack.maxSize = Finite 2\<rparr>)
       = Inr (Num 3)
   \<and> fst (Stack_peek \<lparr>Stack.items = [Num 1, Num 2, Num 3], Stack.maxSize = Finite 3\<rparr>)
       = Inr (Num 3)
   \<and> (1::rat) \<le> 5 / 2
   \<and> 5 / 2 < rat_of_nat
         (Stack_size \<lparr>Stack.items = [Num 1, Num 2, Num 3], Stack.maxSize = Finite 3\<rparr>)
   \<and> Stack_setMaxSize (Finite (5 / 2))
         \<lparr>Stack.items = [Num 1, Num 2, Num 3], Stack.maxSize = Finite 3\<rparr>
       = (Inr Undefined, \<lparr>Stack.items = [Num 2, Num 3], Stack.maxSize = Finite (5 / 2)\<rparr>)"
proof -
  have "\<lfloor>5 / 2 :: rat\<rfloor> = 2"
    by (rule floor_unique) simp_all
  then show ?thesis
    using setMaxSize_contract
        [of "Finite 0" "\<lparr>Stack.items = [Num 1, Num 2, Num 3], Stack.maxSize = Finite 3\<rparr>" 2]
      setMaxSize_contract
        [of "Finite 0" "\<lparr>Stack.items = [Num 1, Num 2, Num 3], Stack.maxSize = Finite 3\<rparr>"
            "5 / 2"]
    by (simp add: Stack_size_def Stack_peek_def Stack_isEmpty_def)
qed

subsection \<open>Clearing and peeking\<close>

text \<open>
  Claim C7. \<open>clear()\<close> of a Stack and of a Queue returns normally in every state, leaves the
  container empty, and a second \<open>clear()\<close> leaves the same state; afterwards \<open>size()\<close> is 0
  and \<open>isEmpty()\<close> is true.
\<close>

theorem clear_contract:
  "Stack_clear s = (Inr Undefined, s\<lparr>Stack.items := []\<rparr>)
   \<and> snd (Stack_clear (snd (Stack_clear s))) = snd (Stack_clear s)
   \<and> Stack_size (snd (Stack_clear s)) = 0
   \<and> Stack_isEmpty (snd (Stack_clear s)) = True
   \<and> Queue_clear q = (Inr Undefined, q\<lparr>Queue.items := []\<rparr>)
   \<and> snd (Queue_clear (snd (Queue_clear q))) = snd (Queue_clear q)
   \<and> Queue_size (snd (Queue_clear q)) = 0
   \<and> Queue_isEmpty (snd (Queue_clear q)) = True"
  by (simp add: Stack_clear_def Stack_size_def Stack_isEmpty_def
      Queue_clear_def Queue_size_def Queue_isEmpty_def)

text \<open>
  Claim C8. \<open>Stack.peek()\<close>, \<open>Queue.front()\<close> and \<open>Queue.rear()\<close> never throw and leave the
  container as it is. \<open>peek\<close> returns the last element of the stack, \<open>front\<close> the first and
  \<open>rear\<close> the last element of the queue; on an empty container each returns \<open>null\<close>.
\<close>

theorem peeks_contract:
  "Stack_peek s = (Inr (if Stack.items s = [] then Null else last (Stack.items s)), s)
   \<and> Queue_front q = (Inr (if Queue.items q = [] then Null else hd (Queue.items q)), q)
   \<and> Queue_rear q = (Inr (if Queue.items q = [] then Null else last (Queue.items q)), q)"
  by (simp add: Stack_peek_def Stack_isEmpty_def Queue_front_def Queue_rear_def Queue_isEmpty_def
      last_conv_nth hd_conv_nth)



section \<open>Input validation in the controllers\<close>

subsection \<open>Auxiliary facts\<close>

text \<open>A text is blank for \<open>trim\<close> exactly when all its code units are white space.\<close>

lemma trim_blank_iff: "trim s = [] \<longleftrightarrow> (\<forall>c \<in> set s. isWhiteSpace c)"
proof -
  have "(\<forall>x \<in> set (dropWhile isWhiteSpace s). isWhiteSpace x) \<longleftrightarrow> dropWhile isWhiteSpace s = []"
  proof
    assume a: "\<forall>x \<in> set (dropWhile isWhiteSpace s). isWhiteSpace x"
    show "dropWhile isWhiteSpace s = []"
    proof (rule ccontr)
      assume b: "dropWhile isWhiteSpace s \<noteq> []"
      then have "\<not> isWhiteSpace (hd (dropWhile isWhiteSpace s))" by (rule hd_dropWhile)
      moreover from b have "hd (dropWhile isWhiteSpace s) \<in> set (dropWhile isWhiteSpace s)" by simp
      ultimately show False using a by blast
    qed
  qed (auto dest: set_dropWhileD)
  then show ?thesis by (simp add: trim_def dropWhile_eq_Nil_conv)
qed

lemma StackDemo_notify_validation:
  "StackDemo_notify notifications ''validation'' message val d =
     (case notifications of
        None \<Rightarrow>
          (Inr Undefined,
           d\<lparr>StackDemo.effects := StackDemo.effects d @
              [Console ''warn'' [Str (ascii ''Notifications not loaded yet:''),
                                 Str (ascii ''validation''), message, val]]\<rparr>)
      | Some obj \<Rightarrow>
          if ''validationError'' \<in> set obj
          then (Inr Undefined,
                d\<lparr>StackDemo.effects := StackDemo.effects d @
                   [Sink ''validationError'' [Str (ascii ''Input''), message]]\<rparr>)
          else (Inl TypeError, d))"
  by (simp add: StackDemo_notify_def StackDemo_emit_def split: option.splits)

lemma StackDemo_notify_stack:
  "stack (snd (StackDemo_notify notifications type message val d)) = stack d"
  by (simp add: StackDemo_notify_def StackDemo_emit_def StackDemo_optional_def split: option.splits)

text \<open>
  Whatever the notification object is, a blank input and an input of more than 15 code
  units never reach \<open>Stack.push\<close>: the stack of the controller stays as it is.
\<close>

lemma StackDemo_push_rejected:
  "trim (input d) = [] \<or> 15 < length (trim (input d)) \<Longrightarrow>
   stack (snd (StackDemo_push notifications d)) = stack d"
  by (auto simp: StackDemo_push_def Let_def StackDemo_notify_stack)

text \<open>
  With the object of utils/notifications.js, both rejections end in the TypeError, before
  anything is shown.
\<close>

lemma StackDemo_push_NotificationSystem_rejected:
  "trim (input d) = [] \<or> 15 < length (trim (input d)) \<Longrightarrow>
   StackDemo_push (Some NotificationSystem) d = (Inl TypeError, d)"
  by (auto simp: StackDemo_push_def Let_def StackDemo_notify_validation NotificationSystem_def)

text \<open>
  The Enqueue button on a blank input: the queue is not touched and the warning
  \<open>msg_enter_value\<close> is shown.
\<close>

lemma QueueDemo_click_blank:
  "inputField d = Some v \<Longrightarrow> trim v = [] \<Longrightarrow>
   QueueDemo_enqueueBtn_click notifications d =
     QueueDemo_showNotification notifications msg_enter_value ''warning'' d
   \<and> queue (snd (QueueDemo_enqueueBtn_click notifications d)) = queue d"
  by (simp add: QueueDemo_enqueueBtn_click_def QueueDemo_showNotification_def)

lemma QueueDemo_click_blank_NotificationSystem:
  "inputField d = Some v \<Longrightarrow> trim v = [] \<Longrightarrow>
   QueueDemo_enqueueBtn_click (Some NotificationSystem) d =
     (Inr Undefined,
      d\<lparr>QueueDemo.effects := QueueDemo.effects d @ [Sink ''warning'' [Str msg_enter_value]]\<rparr>)"
  by (simp add: QueueDemo_enqueueBtn_click_def QueueDemo_showNotification_def NotificationSystem_def)

subsection \<open>Blank input\<close>

text \<open>
  Claim C9. A command with a blank input is to give a validation notification and to leave
  the container untouched, in both controllers. For \<open>StackDemo.push\<close> the container is
  untouched, but the notification is not given: \<open>notify('validation', ...)\<close> calls
  \<open>window.notifications.validationError\<close>, which the object of utils/notifications.js does
  not have, so on an empty input and on an input of two spaces the call throws a TypeError
  and nothing has been shown.
\<close>

theorem StackDemo_push_blank_throws:
  "StackDemo_push (Some NotificationSystem) StackDemo_new = (Inl TypeError, StackDemo_new)
   \<and> StackDemo.effects StackDemo_new = []
   \<and> StackDemo_push (Some NotificationSystem) (StackDemo_new\<lparr>input := ascii ''  ''\<rparr>)
       = (Inl TypeError, StackDemo_new\<lparr>input := ascii ''  ''\<rparr>)"
  by (simp add: StackDemo_push_def StackDemo_notify_def NotificationSystem_def StackDemo_new_def
      trim_def isWhiteSpace_def ascii_def)

subsection \<open>The limit of 15 code units\<close>

text \<open>
  Claim C10. \<open>StackDemo.push\<close> rejects an input of more than 15 code units before it calls
  \<open>Stack.push\<close>, and is to give a validation notification. On the input
  \<open>0123456789abcdef\<close> (16 code units) the stack of the controller is untouched, but the
  notification is not given: the call of \<open>window.notifications.validationError\<close> throws a
  TypeError and nothing has been shown. \<open>Stack.push\<close> itself stores the same text.
\<close>

theorem StackDemo_push_long_throws:
  "length (trim (ascii ''0123456789abcdef'')) = 16
   \<and> StackDemo_push (Some NotificationSystem)
        (StackDemo_new\<lparr>input := ascii ''0123456789abcdef''\<rparr>)
       = (Inl TypeError, StackDemo_new\<lparr>input := ascii ''0123456789abcdef''\<rparr>)
   \<and> StackDemo.effects (StackDemo_new\<lparr>input := ascii ''0123456789abcdef''\<rparr>) = []
   \<and> Stack_push (Str (ascii ''0123456789abcdef'')) Stack_new
       = (Inr (Bool True), Stack_new\<lparr>Stack.items := [Str (ascii ''0123456789abcdef'')]\<rparr>)"
  by (simp add: StackDemo_push_def StackDemo_notify_def NotificationSystem_def StackDemo_new_def
      trim_def isWhiteSpace_def ascii_def Stack_push_def Stack_new_def len_def)

end
